theory Spec2Isabelle
  imports Complex_Main
begin

section \<open>JavaScript values in the dashboard's arithmetic\<close>

text \<open>
  A column read from a row, or a number the code computes, is a JavaScript value: a
  number, NaN, null (an empty column) or undefined (a property the row does not have).
  Numbers are idealised as reals: the rounding of IEEE doubles and the two infinities
  are not represented. Every division of the modelled code is guarded by a test on its
  divisor, so that no quotient by zero is ever taken.
\<close>

datatype jsval = Num real | NaN | Null | Undefined

fun toNumber :: "jsval \<Rightarrow> real option" where
  "toNumber (Num x) = Some x"
| "toNumber NaN = None"
| "toNumber Null = Some 0"
| "toNumber Undefined = None"

definition js_binop :: "(real \<Rightarrow> real \<Rightarrow> real) \<Rightarrow> jsval \<Rightarrow> jsval \<Rightarrow> jsval" where
  "js_binop f a b =
     (case toNumber a of
        None \<Rightarrow> NaN
      | Some x \<Rightarrow> (case toNumber b of None \<Rightarrow> NaN | Some y \<Rightarrow> Num (f x y)))"

definition js_add :: "jsval \<Rightarrow> jsval \<Rightarrow> jsval" where
  "js_add a b = js_binop (\<lambda>x y. x + y) a b"

definition js_sub :: "jsval \<Rightarrow> jsval \<Rightarrow> jsval" where
  "js_sub a b = js_binop (\<lambda>x y. x - y) a b"

definition js_mul :: "jsval \<Rightarrow> jsval \<Rightarrow> jsval" where
  "js_mul a b = js_binop (\<lambda>x y. x * y) a b"

text \<open>
  \<open>a / b\<close>. JavaScript gives an infinity for a non-zero number over zero; the
  model has none and answers NaN there. No call site below reaches that case.
\<close>

definition js_div :: "jsval \<Rightarrow> jsval \<Rightarrow> jsval" where
  "js_div a b =
     (case toNumber a of
        None \<Rightarrow> NaN
      | Some x \<Rightarrow>
          (case toNumber b of
             None \<Rightarrow> NaN
           | Some y \<Rightarrow> if y = 0 then NaN else Num (x / y)))"

definition js_neg :: "jsval \<Rightarrow> jsval" where
  "js_neg a = (case toNumber a of None \<Rightarrow> NaN | Some x \<Rightarrow> Num (- x))"

text \<open>Truthiness, as \<open>||\<close> and \<open>!\<close> test it: 0, NaN, null and undefined are falsy.\<close>

fun truthy :: "jsval \<Rightarrow> bool" where
  "truthy (Num x) = (x \<noteq> 0)"
| "truthy NaN = False"
| "truthy Null = False"
| "truthy Undefined = False"

definition js_or :: "jsval \<Rightarrow> jsval \<Rightarrow> jsval" where
  "js_or a b = (if truthy a then a else b)"

text \<open>\<open>a > 0\<close>: false on NaN and undefined, null counts as 0.\<close>

definition js_gt0 :: "jsval \<Rightarrow> bool" where
  "js_gt0 a = (case toNumber a of None \<Rightarrow> False | Some x \<Rightarrow> 0 < x)"

subsection \<open>\<open>Number.parseInt\<close> and \<open>String.prototype.includes\<close>\<close>

definition isWhiteSpace :: "char \<Rightarrow> bool" where
  "isWhiteSpace c =
     (c = CHR '' '' \<or> c = CHR 0x09 \<or> c = CHR 0x0A \<or> c = CHR 0x0B \<or> c = CHR 0x0C \<or> c = CHR 0x0D)"

definition digitValue :: "char \<Rightarrow> nat option" where
  "digitValue c =
     (let n = (of_char c :: nat) in
      if 48 \<le> n \<and> n \<le> 57 then Some (n - 48)
      else if 97 \<le> n \<and> n \<le> 102 then Some (n - 87)
      else if 65 \<le> n \<and> n \<le> 70 then Some (n - 55)
      else None)"

definition isRadixDigit :: "nat \<Rightarrow> char \<Rightarrow> bool" where
  "isRadixDigit radix c = (case digitValue c of None \<Rightarrow> False | Some d \<Rightarrow> d < radix)"

definition digitsValue :: "nat \<Rightarrow> string \<Rightarrow> nat" where
  "digitsValue radix ds =
     foldl (\<lambda>a c. radix * a + (case digitValue c of None \<Rightarrow> 0 | Some d \<Rightarrow> d)) 0 ds"

text \<open>
  \<open>Number.parseInt(s)\<close> with no radix: leading white space is dropped, then an
  optional sign, then an optional \<open>0x\<close> prefix, then the longest run of digits; NaN
  when that run is empty. White space is the ASCII white space.
\<close>

definition parseInt :: "string \<Rightarrow> jsval" where
  "parseInt s =
     (let s1 = dropWhile isWhiteSpace s;
          negative = (take 1 s1 = ''-'');
          s2 = (if take 1 s1 = ''-'' \<or> take 1 s1 = ''+'' then drop 1 s1 else s1);
          hex = (take 2 s2 = ''0x'' \<or> take 2 s2 = ''0X'');
          radix = (if hex then 16 else 10);
          s3 = (if hex then drop 2 s2 else s2);
          ds = takeWhile (isRadixDigit radix) s3
      in if ds = [] then NaN
         else if negative then Num (- real (digitsValue radix ds))
         else Num (real (digitsValue radix ds)))"

fun str_includes :: "string \<Rightarrow> string \<Rightarrow> bool" where
  "str_includes [] sub = (sub = [])"
| "str_includes (c # cs) sub = (take (length sub) (c # cs) = sub \<or> str_includes cs sub)"

section \<open>The rows of the database\<close>

text \<open>
  The database is reached through generic select, insert and update calls only. A table
  is the list of its rows, and a row carries every column that some caller names.
  \<open>executeOrder\<close> names the average price of a position \<open>avg_price\<close>, the price
  refresh and the portfolio tracker name it \<open>average_price\<close>; the row keeps the two
  columns apart, as the code does. A column that an insert does not give is null.
\<close>

datatype order_type = Market | Limit

datatype order_side = Buy | Sell

record order_row =
  ord_agent_id :: string
  ord_symbol :: string
  ord_order_type :: order_type
  ord_side :: order_side
  ord_quantity :: jsval
  ord_price :: jsval
  ord_status :: string
  ord_created_at :: string

record position =
  row_id :: nat
  agent_id :: string
  symbol :: string
  quantity :: jsval
  avg_price :: jsval
  average_price :: jsval
  current_price :: jsval
  market_value :: jsval
  unrealized_pnl :: jsval
  created_at :: "string option"
  updated_at :: string

record database =
  orders :: "order_row list"
  portfolio_positions :: "position list"

text \<open>\<open>.single()\<close>: the row when the query selects exactly one, no data otherwise.\<close>

definition single :: "'a list \<Rightarrow> 'a option" where
  "single rows = (case rows of [r] \<Rightarrow> Some r | _ \<Rightarrow> None)"

section \<open>Order execution\<close>

text \<open>
  The state of the order form, and what one call takes from outside: the error message
  of the insert into \<open>orders\<close> (if it fails), the value of \<open>Math.random()\<close>, the
  clock, the key the database gives a new position row, and \<open>Number.parseFloat\<close>.
  The reads and writes of \<open>portfolio_positions\<close> are taken to succeed: the code does
  not look at the result of its writes, and the table of the model takes every column it
  is given. A table that refuses a write for a column it does not have would stay as it
  was, under the same toast. The loading flag of the component is not part of the model.
\<close>

record form =
  selectedAgent :: string
  selectedSymbol :: string
  orderQuantity :: string
  limitPrice :: string
  orderType :: order_type
  orderSide :: order_side

record env =
  order_insert_error :: "string option"
  Math_random :: real
  now :: string
  fresh_id :: nat
  parseFloat :: "string \<Rightarrow> jsval"

datatype toast =
    Missing_Information
  | Database_Setup_Required
  | Order_Placed
  | Failed_to_place_order
  | Rebalance_Order_Placed
  | Rebalance_Failed

definition signed_quantity :: "form \<Rightarrow> jsval" where
  "signed_quantity f =
     (if orderSide f = Buy then parseInt (orderQuantity f) else js_neg (parseInt (orderQuantity f)))"

definition new_order :: "env \<Rightarrow> form \<Rightarrow> order_row" where
  "new_order e f =
     \<lparr> ord_agent_id = selectedAgent f,
       ord_symbol = selectedSymbol f,
       ord_order_type = orderType f,
       ord_side = orderSide f,
       ord_quantity = parseInt (orderQuantity f),
       ord_price = (if limitPrice f \<noteq> [] then parseFloat e (limitPrice f) else Null),
       ord_status = ''filled'',
       ord_created_at = now e \<rparr>"

text \<open>
  The update of an existing position: the new columns are computed from the row that was
  read, \<open>existingPosition\<close>, and written to the row \<open>r\<close> that the key selects.
\<close>

definition update_position :: "env \<Rightarrow> jsval \<Rightarrow> jsval \<Rightarrow> position \<Rightarrow> position \<Rightarrow> position" where
  "update_position e currentPrice qty existingPosition r =
     (let newQuantity = js_add (quantity existingPosition) qty;
          newAvgPrice =
            (if newQuantity = Num 0 then Num 0
             else js_div
                    (js_add (js_mul (avg_price existingPosition) (quantity existingPosition))
                            (js_mul currentPrice qty))
                    newQuantity)
      in r \<lparr> quantity := newQuantity,
             avg_price := newAvgPrice,
             current_price := currentPrice,
             updated_at := now e \<rparr>)"

definition new_position :: "env \<Rightarrow> form \<Rightarrow> jsval \<Rightarrow> jsval \<Rightarrow> position" where
  "new_position e f currentPrice qty =
     \<lparr> row_id = fresh_id e,
       agent_id = selectedAgent f,
       symbol = selectedSymbol f,
       quantity = qty,
       avg_price = currentPrice,
       average_price = Null,
       current_price = currentPrice,
       market_value = Null,
       unrealized_pnl = Null,
       created_at = Some (now e),
       updated_at = now e \<rparr>"

definition matches :: "form \<Rightarrow> position \<Rightarrow> bool" where
  "matches f r = (agent_id r = selectedAgent f \<and> symbol r = selectedSymbol f)"

definition reset_form :: "form \<Rightarrow> form" where
  "reset_form f =
     f \<lparr> selectedSymbol := [], orderQuantity := [], limitPrice := [], selectedAgent := [] \<rparr>"

text \<open>
  \<open>executeOrder\<close>: the toast shown, the form afterwards and the database afterwards.
  In the update of an existing position, \<open>.eq("id", existingPosition.id)\<close> writes every
  row with that key.
\<close>

definition executeOrder :: "env \<Rightarrow> form \<Rightarrow> database \<Rightarrow> toast \<times> form \<times> database" where
  "executeOrder e f db =
     (if selectedAgent f = [] \<or> selectedSymbol f = [] \<or> orderQuantity f = []
      then (Missing_Information, f, db)
      else
        (case order_insert_error e of
           Some message \<Rightarrow>
             if str_includes message ''schema cache'' \<or> str_includes message ''does not exist''
             then (Database_Setup_Required, f, db)
             else (Failed_to_place_order, f, db)
         | None \<Rightarrow>
             (let db1 = db \<lparr> orders := orders db @ [new_order e f] \<rparr>;
                  currentPrice = Num (Math_random e * 1000 + 500);
                  qty = signed_quantity f
              in case single (filter (matches f) (portfolio_positions db1)) of
                   Some existingPosition \<Rightarrow>
                     (Order_Placed, reset_form f,
                      db1 \<lparr> portfolio_positions :=
                              map (\<lambda>r. if row_id r = row_id existingPosition
                                        then update_position e currentPrice qty existingPosition r
                                        else r)
                                  (portfolio_positions db1) \<rparr>)
                 | None \<Rightarrow>
                     (Order_Placed, reset_form f,
                      db1 \<lparr> portfolio_positions :=
                              portfolio_positions db1 @ [new_position e f currentPrice qty] \<rparr>))))"

subsection \<open>Rebalancing orders\<close>

text \<open>
  \<open>executeRebalance\<close> inserts one order for a recommendation, under the agent of the
  form. It gives the order no price, so that the column is null.
\<close>

datatype action = buy | sell | hold

record recommendation =
  rec_symbol :: string
  currentAllocation :: real
  targetAllocation :: real
  recommendedAction :: action
  rec_quantity :: real
  reason :: string

definition rebalance_order :: "env \<Rightarrow> form \<Rightarrow> recommendation \<Rightarrow> order_row" where
  "rebalance_order e f recommendation =
     \<lparr> ord_agent_id = selectedAgent f,
       ord_symbol = rec_symbol recommendation,
       ord_order_type = Market,
       ord_side = (if recommendedAction recommendation = buy then Buy else Sell),
       ord_quantity = Num (rec_quantity recommendation),
       ord_price = Null,
       ord_status = ''pending'',
       ord_created_at = now e \<rparr>"

definition executeRebalance :: "env \<Rightarrow> form \<Rightarrow> recommendation \<Rightarrow> database \<Rightarrow> toast \<times> database" where
  "executeRebalance e f recommendation db =
     (case order_insert_error e of
        Some message \<Rightarrow>
          if str_includes message ''schema cache'' \<or> str_includes message ''does not exist''
          then (Database_Setup_Required, db)
          else (Rebalance_Failed, db)
      | None \<Rightarrow>
          (Rebalance_Order_Placed,
           db \<lparr> orders := orders db @ [rebalance_order e f recommendation] \<rparr>))"

section \<open>The portfolio price refresh\<close>

text \<open>
  The route reads the positions of non-zero quantity, asks the market-data endpoint for a
  price of each of their symbols, and writes a price, a market value and an unrealized
  profit to every such position. The answer of the market-data endpoint is taken from
  outside, as is the clock. The filter \<open>.neq("quantity", 0)\<close> runs in the
  database, where an empty column is not different from 0. The route starts its updates
  together; they are modelled one after the other, in the order of the market data, which
  gives the same table whenever no key is written at two prices.
\<close>

record market =
  m_symbol :: string
  close_price :: jsval

record marketData =
  success :: bool
  data :: "market list"

record refresh_env =
  market_response :: "string list \<Rightarrow> marketData"
  refresh_now :: string

datatype refresh_response =
    No_positions_to_update
  | Portfolio_prices_updated nat
  | Failed_to_update_portfolio_prices

fun neq0 :: "jsval \<Rightarrow> bool" where
  "neq0 (Num x) = (x \<noteq> 0)"
| "neq0 NaN = True"
| "neq0 Null = False"
| "neq0 Undefined = False"

text \<open>The symbols in the order of their first occurrence, as \<open>[...new Set(xs)]\<close>.\<close>

definition uniqueSymbols :: "string list \<Rightarrow> string list" where
  "uniqueSymbols xs = rev (remdups (rev xs))"

text \<open>
  The columns that the refresh writes, computed from the row \<open>position\<close> that was read
  and written to the row \<open>r\<close> that its key selects.
\<close>

definition price_update :: "string \<Rightarrow> market \<Rightarrow> position \<Rightarrow> position \<Rightarrow> position" where
  "price_update t m position r =
     (let currentPrice = close_price m;
          marketValue = js_mul (quantity position) currentPrice;
          unrealizedPnL = js_mul (js_sub currentPrice (average_price position)) (quantity position)
      in r \<lparr> current_price := currentPrice,
             market_value := marketValue,
             unrealized_pnl := unrealizedPnL,
             updated_at := t \<rparr>)"

definition positionsToUpdate :: "market \<Rightarrow> position list \<Rightarrow> position list" where
  "positionsToUpdate m rows = filter (\<lambda>r. symbol r = m_symbol m \<and> neq0 (quantity r)) rows"

definition update_by_id :: "string \<Rightarrow> market \<Rightarrow> position list \<Rightarrow> position \<Rightarrow> position list" where
  "update_by_id t m rows position =
     map (\<lambda>r. if row_id r = row_id position then price_update t m position r else r) rows"

definition refresh_symbol :: "string \<Rightarrow> position list \<Rightarrow> market \<Rightarrow> position list" where
  "refresh_symbol t rows m = foldl (update_by_id t m) rows (positionsToUpdate m rows)"

definition POST_update_prices :: "refresh_env \<Rightarrow> database \<Rightarrow> refresh_response \<times> database" where
  "POST_update_prices e db =
     (let positions = filter (\<lambda>r. neq0 (quantity r)) (portfolio_positions db)
      in if positions = [] then (No_positions_to_update, db)
         else
           (let symbols = uniqueSymbols (map symbol positions);
                marketData = market_response e symbols
            in if \<not> success marketData then (Failed_to_update_portfolio_prices, db)
               else (Portfolio_prices_updated (length symbols),
                     db \<lparr> portfolio_positions :=
                             foldl (refresh_symbol (refresh_now e)) (portfolio_positions db)
                                   (data marketData) \<rparr>)))"

section \<open>The portfolio tracker\<close>

text \<open>
  \<open>fetchPortfolioMetrics\<close> selects the positions of non-zero quantity of the user's
  agents and derives the figures it shows. The join with the agents of the user is the
  predicate \<open>owns\<close> on the agent of a row. The mocked day change (a tenth of the
  total profit) and its percentage are not modelled.
\<close>

record processedPosition =
  p_symbol :: string
  p_quantity :: jsval
  averagePrice :: jsval
  currentPrice :: jsval
  marketValue :: jsval
  unrealizedPnL :: jsval
  pnlPercent :: jsval
  allocation :: jsval

record metrics =
  totalValue :: jsval
  totalPnL :: jsval
  totalPnLPercent :: jsval
  positions :: "processedPosition list"

definition reduce_sum :: "(position \<Rightarrow> jsval) \<Rightarrow> position list \<Rightarrow> jsval" where
  "reduce_sum g rows = foldl (\<lambda>total pos. js_add total (g pos)) (Num 0) rows"

definition process_position :: "jsval \<Rightarrow> position \<Rightarrow> processedPosition" where
  "process_position sumValue pos =
     \<lparr> p_symbol = symbol pos,
       p_quantity = quantity pos,
       averagePrice = average_price pos,
       currentPrice = js_or (current_price pos) (average_price pos),
       marketValue = js_or (market_value pos) (js_mul (quantity pos) (average_price pos)),
       unrealizedPnL = js_or (unrealized_pnl pos) (Num 0),
       pnlPercent =
         (if js_gt0 (average_price pos)
          then js_mul (js_div (js_sub (current_price pos) (average_price pos)) (average_price pos))
                      (Num 100)
          else Num 0),
       allocation =
         (if js_gt0 sumValue
          then js_mul (js_div (js_or (market_value pos) (Num 0)) sumValue) (Num 100)
          else Num 0) \<rparr>"

definition compute_metrics :: "position list \<Rightarrow> metrics" where
  "compute_metrics rows =
     (if rows = []
      then \<lparr> totalValue = Num 0, totalPnL = Num 0, totalPnLPercent = Num 0, positions = [] \<rparr>
      else
        (let sumValue = reduce_sum (\<lambda>pos. js_or (market_value pos) (Num 0)) rows;
             totalCost = reduce_sum (\<lambda>pos. js_mul (quantity pos) (average_price pos)) rows;
             pnl = reduce_sum (\<lambda>pos. js_or (unrealized_pnl pos) (Num 0)) rows
         in \<lparr> totalValue = sumValue,
              totalPnL = pnl,
              totalPnLPercent =
                (if js_gt0 totalCost then js_mul (js_div pnl totalCost) (Num 100) else Num 0),
              positions = map (process_position sumValue) rows \<rparr>))"

definition fetchPortfolioMetrics :: "(string \<Rightarrow> bool) \<Rightarrow> database \<Rightarrow> metrics" where
  "fetchPortfolioMetrics owns db =
     compute_metrics
       (filter (\<lambda>r. owns (agent_id r) \<and> neq0 (quantity r)) (portfolio_positions db))"

section \<open>Strategy generation\<close>

text \<open>
  The route asks a language model for a strategy in JSON, keeps the answer when it parses
  and has its required fields, and builds a strategy from a template otherwise.
  \<open>JSON.parse\<close> and the printing of numbers belong to the language and are taken as
  the functions of a library record; the answer of the model, the result of saving the
  strategy and the clock are taken from outside. The two reads of market data and of
  strategy performance do not reach the result and are left out.
\<close>

datatype json =
    JNull
  | JBool bool
  | JNum real
  | JStr string
  | JArr "json list"
  | JObj "(string \<times> json) list"

record js_library =
  JSON_parse :: "string \<Rightarrow> json option"
  Number_toString :: "real \<Rightarrow> string"
  toFixed1 :: "real \<Rightarrow> string"

record strategy_request =
  req_marketConditions :: string
  req_riskTolerance :: real
  req_strategyType :: string

record strategy_env =
  generateText :: "string option"
  strategy_insert :: "(string \<times> json) list option"
  Date_now :: real
  Date_toISOString :: string

datatype response =
    Success json json json
  | Failed_to_generate_strategy

text \<open>
  Reading a property: undefined (\<open>None\<close>) when the value has none of that name. In an
  object the last member of a name is the one that counts. The read of a property of
  \<open>null\<close> throws; \<open>validate\<close> below answers for it.
\<close>

fun get_prop :: "json \<Rightarrow> string \<Rightarrow> json option" where
  "get_prop (JObj members) k = map_of (rev members) k"
| "get_prop _ k = None"

fun json_truthy :: "json option \<Rightarrow> bool" where
  "json_truthy None = False"
| "json_truthy (Some JNull) = False"
| "json_truthy (Some (JBool b)) = b"
| "json_truthy (Some (JNum x)) = (x \<noteq> 0)"
| "json_truthy (Some (JStr s)) = (s \<noteq> [])"
| "json_truthy (Some (JArr xs)) = True"
| "json_truthy (Some (JObj members)) = True"

text \<open>An object literal: a member whose value is undefined is not sent.\<close>

definition object :: "(string \<times> json option) list \<Rightarrow> json" where
  "object members =
     JObj (concat (map (\<lambda>(k, v). case v of None \<Rightarrow> [] | Some j \<Rightarrow> [(k, j)]) members))"

subsection \<open>Cleaning the answer\<close>

definition trim :: "string \<Rightarrow> string" where
  "trim s = rev (dropWhile isWhiteSpace (rev (dropWhile isWhiteSpace s)))"

text \<open>\<open>.replace(/^```json\s*/, "")\<close> and \<open>.replace(/\s*```$/, "")\<close>.\<close>

definition strip_opening_fence :: "string \<Rightarrow> string" where
  "strip_opening_fence s =
     (if take 7 s = ''```json'' then dropWhile isWhiteSpace (drop 7 s) else s)"

definition strip_closing_fence :: "string \<Rightarrow> string" where
  "strip_closing_fence s =
     (if take 3 (rev s) = ''```'' then rev (dropWhile isWhiteSpace (drop 3 (rev s))) else s)"

definition cleanedText :: "string \<Rightarrow> string" where
  "cleanedText text = strip_closing_fence (strip_opening_fence (trim text))"

subsection \<open>The template\<close>

definition nl :: string where
  "nl = [CHR 0x0A]"

definition sq :: string where
  "sq = [CHR 0x27]"

definition toLowerCase :: "string \<Rightarrow> string" where
  "toLowerCase s =
     map (\<lambda>c. if 65 \<le> (of_char c :: nat) \<and> (of_char c :: nat) \<le> 90
              then char_of ((of_char c :: nat) + 32) else c) s"

definition maxPositionSize :: "real \<Rightarrow> real" where
  "maxPositionSize r = (r / 100) * 0.1"

definition stopLoss :: "real \<Rightarrow> real" where
  "stopLoss r = max 0.01 ((100 - r) / 1000)"

definition takeProfit :: "real \<Rightarrow> real" where
  "takeProfit r = max 0.02 (r / 1000)"

definition maxPositionValueINR :: "real \<Rightarrow> real" where
  "maxPositionValueINR r = r * 2000"

definition expectedReturn :: "real \<Rightarrow> real" where
  "expectedReturn r = max 0.08 (r / 1000)"

definition maxDrawdown :: "real \<Rightarrow> real" where
  "maxDrawdown r = max 0.03 ((100 - r) / 2000)"

definition implementation :: "js_library \<Rightarrow> real \<Rightarrow> string \<Rightarrow> string" where
  "implementation lib riskTolerance strategyType =
      ''# Complete '' @ strategyType @ '' Strategy Implementation for Indian Market'' @ nl @
      ''def indian_'' @ toLowerCase strategyType @ ''_strategy():'' @ nl @
      ''    # Initialize parameters for Indian stocks'' @ nl @
      ''    indian_stocks = ['' @ sq @ ''RELIANCE'' @ sq @ '', '' @ sq @ ''TCS'' @ sq @ '', '' @ sq @ ''INFY'' @ sq @ '', '' @ sq @ ''HDFCBANK'' @ sq @ '', '' @ sq @ ''ICICIBANK'' @ sq @ '']'' @ nl @
      ''    risk_tolerance = '' @ Number_toString lib riskTolerance @ nl @
      ''    '' @ nl @
      ''    for stock in indian_stocks:'' @ nl @
      ''        # Get current market data'' @ nl @
      ''        current_price = get_stock_price(stock)'' @ nl @
      ''        rsi = calculate_rsi(stock, period=14)'' @ nl @
      ''        volume = get_current_volume(stock)'' @ nl @
      ''        avg_volume = get_average_volume(stock, period=20)'' @ nl @
      ''        '' @ nl @
      ''        # Entry conditions for Indian market'' @ nl @
      ''        if (rsi < 40 and volume > avg_volume * 1.5 and '' @ nl @
      ''            is_market_hours() and current_price > sma_20):'' @ nl @
      ''            '' @ nl @
      ''            position_size = calculate_position_size('' @ nl @
      ''                portfolio_value, '' @ nl @
      ''                risk_per_trade='' @ Number_toString lib (maxPositionSize riskTolerance) @ nl @
      ''            )'' @ nl @
      ''            '' @ nl @
      ''            entry_price = current_price'' @ nl @
      ''            stop_loss = entry_price * (1 - '' @ Number_toString lib (stopLoss riskTolerance) @ '')'' @ nl @
      ''            take_profit = entry_price * (1 + '' @ Number_toString lib (takeProfit riskTolerance) @ '')'' @ nl @
      ''            '' @ nl @
      ''            place_order('' @ sq @ ''BUY'' @ sq @ '', stock, position_size, entry_price)'' @ nl @
      ''            set_stop_loss(stock, stop_loss)'' @ nl @
      ''            set_take_profit(stock, take_profit)'' @ nl @
      ''        '' @ nl @
      ''        # Exit conditions considering Indian market timing'' @ nl @
      ''        if (current_time() > '' @ sq @ ''15:00'' @ sq @ '' or '' @ nl @
      ''            get_profit_loss(stock) > take_profit or'' @ nl @
      ''            get_profit_loss(stock) < -stop_loss):'' @ nl @
      ''            '' @ nl @
      ''            close_position(stock)'' @ nl @
      ''    '' @ nl @
      ''    # Portfolio risk management'' @ nl @
      ''    total_drawdown = calculate_portfolio_drawdown()'' @ nl @
      ''    if total_drawdown > '' @ Number_toString lib (maxDrawdown riskTolerance) @ '':'' @ nl @
      ''        reduce_all_positions(0.5)'' @ nl @
      ''    '' @ nl @
      ''    return strategy_status'' @ nl @
      nl @
      ''# Helper functions for Indian market'' @ nl @
      ''def is_market_hours():'' @ nl @
      ''    current_time = datetime.now(timezone('' @ sq @ ''Asia/Kolkata'' @ sq @ '')).time()'' @ nl @
      ''    return time(9, 15) <= current_time <= time(15, 30)'' @ nl @
      nl @
      ''def calculate_position_size(portfolio_value, risk_per_trade):'' @ nl @
      ''    return min(portfolio_value * risk_per_trade, '' @ Number_toString lib (maxPositionValueINR riskTolerance) @ '')''"

definition fallback_strategy :: "js_library \<Rightarrow> real \<Rightarrow> string \<Rightarrow> json" where
  "fallback_strategy lib riskTolerance strategyType =
     JObj
      [(''name'', JStr (''Indian '' @ strategyType @ '' Trading Strategy'')),
       (''description'',
        JStr (''A comprehensive '' @ strategyType @
          '' strategy designed for the Indian stock market, focusing on NSE-listed stocks like RELIANCE, TCS, and INFY. '' @
          ''This strategy uses technical analysis combined with Indian market timing to identify optimal entry and exit points '' @
          ''while managing risk through position sizing and stop-loss mechanisms.'')),
       (''entryRules'',
        JArr
         [JStr (''Enter long positions when '' @ strategyType @
            '' signals align with RSI below 40 on Indian blue-chip stocks''),
          JStr ''Confirm entry with volume spike above 1.5x average daily volume during market hours (9:15 AM - 3:30 PM IST)'',
          JStr ''Ensure market conditions favor the strategy type with proper risk-reward ratio of at least 1:2'']),
       (''exitRules'',
        JArr
         [JStr ''Exit positions when profit target of 3-5% is reached or before market close at 3:30 PM IST'',
          JStr (''Apply stop-loss at '' @ toFixed1 lib (((100 - riskTolerance) / 1000) * 100) @
            ''% to limit downside risk''),
          JStr ''Close all positions if overall portfolio drawdown exceeds risk tolerance limits'']),
       (''riskParameters'',
        JObj
         [(''maxPositionSize'', JNum (maxPositionSize riskTolerance)),
          (''stopLoss'', JNum (stopLoss riskTolerance)),
          (''takeProfit'', JNum (takeProfit riskTolerance)),
          (''maxPositionValueINR'', JNum (maxPositionValueINR riskTolerance))]),
       (''indicators'',
        JArr [JStr ''RSI'', JStr ''MACD'', JStr ''SMA'', JStr ''Bollinger Bands'', JStr ''Volume'']),
       (''marketConditions'',
        JArr
         [JStr (strategyType @ '' trending markets''),
          JStr ''Indian trading hours'',
          JStr ''High liquidity periods'']),
       (''expectedReturn'', JNum (expectedReturn riskTolerance)),
       (''maxDrawdown'', JNum (maxDrawdown riskTolerance)),
       (''implementation'', JStr (implementation lib riskTolerance strategyType))]"

subsection \<open>The route\<close>

text \<open>
  \<open>validate\<close> is the body of the inner \<open>try\<close>: \<open>None\<close> when it throws, be it
  \<open>JSON.parse\<close>, the read of a property of \<open>null\<close>, or the check of the
  required fields.
\<close>

definition validate :: "js_library \<Rightarrow> string \<Rightarrow> json option" where
  "validate lib text =
     (case JSON_parse lib (cleanedText text) of
        None \<Rightarrow> None
      | Some strategy \<Rightarrow>
          if strategy = JNull then None
          else if \<not> json_truthy (get_prop strategy ''name'')
                \<or> \<not> json_truthy (get_prop strategy ''description'')
                \<or> \<not> json_truthy (get_prop strategy ''entryRules'')
                \<or> \<not> json_truthy (get_prop strategy ''exitRules'')
          then None
          else Some strategy)"

definition strategy_of :: "js_library \<Rightarrow> strategy_request \<Rightarrow> string \<Rightarrow> json" where
  "strategy_of lib req text =
     (case validate lib text of
        Some strategy \<Rightarrow> strategy
      | None \<Rightarrow> fallback_strategy lib (req_riskTolerance req) (req_strategyType req))"

definition savedStrategy :: "strategy_env \<Rightarrow> strategy_request \<Rightarrow> json \<Rightarrow> json" where
  "savedStrategy e req strategy =
     (case strategy_insert e of
        Some strategyResult \<Rightarrow> JObj strategyResult
      | None \<Rightarrow>
          object
           [(''id'', Some (JNum (Date_now e))),
            (''name'', get_prop strategy ''name''),
            (''description'', get_prop strategy ''description''),
            (''strategy_type'', Some (JStr (req_strategyType req))),
            (''parameters'', Some strategy),
            (''is_active'', Some (JBool False)),
            (''created_by_ai'', Some (JBool True)),
            (''created_at'', Some (JStr (Date_toISOString e)))])"

definition POST_generate_strategy :: "js_library \<Rightarrow> strategy_env \<Rightarrow> strategy_request \<Rightarrow> response" where
  "POST_generate_strategy lib e req =
     (case generateText e of
        None \<Rightarrow> Failed_to_generate_strategy
      | Some text \<Rightarrow>
          (let strategy = strategy_of lib req text;
               saved = savedStrategy e req strategy
           in Success saved strategy
                (if \<not> json_truthy (get_prop saved ''id'')
                 then JStr ''Strategy generated but not saved to database. Please run database setup scripts.''
                 else JNull)))"

section \<open>Concrete inputs\<close>

text \<open>A position of ten shares bought at 100, with its cached fields as a refresh leaves them.\<close>

definition example_position :: position where
  "example_position =
     \<lparr> row_id = 1, agent_id = ''a1'', symbol = ''TCS'', quantity = Num 10, avg_price = Num 100,
       average_price = Num 100, current_price = Num 100, market_value = Num 1000,
       unrealized_pnl = Num 0, created_at = Some ''t0'', updated_at = ''t0'' \<rparr>"

definition example_db :: database where
  "example_db = \<lparr> orders = [], portfolio_positions = [example_position] \<rparr>"

definition empty_db :: database where
  "empty_db = \<lparr> orders = [], portfolio_positions = [] \<rparr>"

text \<open>
  The same position as a select reads it from a table that holds the average price in the
  column \<open>average_price\<close> and has no column \<open>avg_price\<close>: the property
  \<open>avg_price\<close> of the row is undefined.
\<close>

definition example_stored_position :: position where
  "example_stored_position =
     \<lparr> row_id = 1, agent_id = ''a1'', symbol = ''TCS'', quantity = Num 10, avg_price = Undefined,
       average_price = Num 100, current_price = Num 100, market_value = Num 1000,
       unrealized_pnl = Num 0, created_at = None, updated_at = ''t0'' \<rparr>"

definition example_stored_db :: database where
  "example_stored_db = \<lparr> orders = [], portfolio_positions = [example_stored_position] \<rparr>"

text \<open>A market order to buy five shares, filled at \<open>0.2 * 1000 + 500 = 700\<close>.\<close>

definition example_form :: form where
  "example_form =
     \<lparr> selectedAgent = ''a1'', selectedSymbol = ''TCS'', orderQuantity = ''5'', limitPrice = [],
       orderType = Market, orderSide = Buy \<rparr>"

definition example_env :: env where
  "example_env =
     \<lparr> order_insert_error = None, Math_random = 1 / 5, now = ''t1'', fresh_id = 2,
       parseFloat = (\<lambda>s. NaN) \<rparr>"

text \<open>The first of the mocked rebalancing recommendations.\<close>

definition example_recommendation :: recommendation where
  "example_recommendation =
     \<lparr> rec_symbol = ''RELIANCE'', currentAllocation = 25, targetAllocation = 20,
       recommendedAction = sell, rec_quantity = 50,
       reason = ''Overweight position, reduce concentration risk'' \<rparr>"

text \<open>A market-data endpoint that prices every symbol at 120.\<close>

definition example_refresh_env :: refresh_env where
  "example_refresh_env =
     \<lparr> market_response =
         (\<lambda>symbols. \<lparr> success = True,
                       data = map (\<lambda>s. \<lparr> m_symbol = s, close_price = Num 120 \<rparr>) symbols \<rparr>),
       refresh_now = ''t2'' \<rparr>"

section \<open>The cached fields of a position\<close>

text \<open>
  The stored market value and unrealized profit of a row are derivable when they are the
  products of its quantity with its current price, and with the difference of its
  current price and average price.
\<close>

definition cached_fields_derivable :: "position \<Rightarrow> bool" where
  "cached_fields_derivable r =
     (market_value r = js_mul (quantity r) (current_price r) \<and>
      unrealized_pnl r = js_mul (quantity r) (js_sub (current_price r) (average_price r)))"

text \<open>A row with the four columns blanked that the price refresh writes.\<close>

definition outside_refresh :: "position \<Rightarrow> position" where
  "outside_refresh r =
     r \<lparr> current_price := Null, market_value := Null, unrealized_pnl := Null, updated_at := [] \<rparr>"

text \<open>
  The row \<open>p\<close> that an update was computed from agrees with a table when every row of
  its key there has its quantity and its average price.
\<close>

definition agrees :: "position \<Rightarrow> position list \<Rightarrow> bool" where
  "agrees p rows =
     list_all (\<lambda>r. row_id r = row_id p \<longrightarrow>
                  quantity r = quantity p \<and> average_price r = average_price p) rows"

section \<open>Stored values as numbers\<close>

text \<open>The number that \<open>pos.market_value || 0\<close> yields: the stored value, or 0 when there is none.\<close>

definition stored_value :: "position \<Rightarrow> real" where
  "stored_value r = (case market_value r of Num x \<Rightarrow> x | _ \<Rightarrow> 0)"

text \<open>A position priced at 120 whose market value has not been stored yet.\<close>

definition example_uncached_position :: position where
  "example_uncached_position =
     \<lparr> row_id = 3, agent_id = ''a1'', symbol = ''INFY'', quantity = Num 10, avg_price = Num 100,
       average_price = Num 100, current_price = Num 120, market_value = Null,
       unrealized_pnl = Null, created_at = Some ''t0'', updated_at = ''t0'' \<rparr>"

text \<open>A short position of ten shares, with its cached fields as a refresh leaves them.\<close>

definition example_short_position :: position where
  "example_short_position =
     \<lparr> row_id = 4, agent_id = ''a1'', symbol = ''SBIN'', quantity = Num (- 10), avg_price = Num 100,
       average_price = Num 100, current_price = Num 100, market_value = Num (- 1000),
       unrealized_pnl = Num 0, created_at = Some ''t0'', updated_at = ''t0'' \<rparr>"

section \<open>A concrete strategy request\<close>

text \<open>
  A library whose parser knows the empty object only, an answer of the model that is the
  empty object in a code fence, and a database that does not save.
\<close>

definition example_library :: js_library where
  "example_library =
     \<lparr> JSON_parse = (\<lambda>s. if s = ''{}'' then Some (JObj []) else None),
       Number_toString = (\<lambda>x. ''50''),
       toFixed1 = (\<lambda>x. ''5.0'') \<rparr>"

definition example_answer :: string where
  "example_answer = ''```json'' @ nl @ ''{}'' @ nl @ ''```''"

definition example_strategy_env :: strategy_env where
  "example_strategy_env =
     \<lparr> generateText = Some example_answer, strategy_insert = None, Date_now = 1762041600000,
       Date_toISOString = ''2025-11-02T00:00:00.000Z'' \<rparr>"

definition example_request :: strategy_request where
  "example_request =
     \<lparr> req_marketConditions = ''volatile'', req_riskTolerance = 50, req_strategyType = ''Momentum'' \<rparr>"

section \<open>Properties of order execution\<close>

lemma single_eq_Some: "single rows = Some r \<longleftrightarrow> rows = [r]"
  by (auto simp: single_def split: list.splits)

lemma js_arith:
  "js_add (Num x) (Num y) = Num (x + y)"
  "js_mul (Num x) (Num y) = Num (x * y)"
  "js_sub (Num x) (Num y) = Num (x - y)"
  "js_neg (Num x) = Num (- x)"
  "y \<noteq> 0 \<Longrightarrow> js_div (Num x) (Num y) = Num (x / y)"
  by (simp_all add: js_add_def js_mul_def js_sub_def js_neg_def js_div_def js_binop_def)

lemma parseInt_5: "parseInt ''5'' = Num 5"
  by (simp add: parseInt_def isWhiteSpace_def isRadixDigit_def digitValue_def digitsValue_def)

lemma update_position_frame:
  "matches f (update_position e p q ex r) = matches f r"
  "row_id (update_position e p q ex r) = row_id r"
  "market_value (update_position e p q ex r) = market_value r"
  "unrealized_pnl (update_position e p q ex r) = unrealized_pnl r"
  by (simp_all add: matches_def update_position_def Let_def)

lemma update_position_quantity:
  "quantity (update_position e p q ex r) = js_add (quantity ex) q"
  by (simp add: update_position_def Let_def)

lemma update_position_avg_price:
  assumes "quantity ex = Num old_qty" and "avg_price ex = Num old_avg"
  shows "avg_price (update_position e (Num p) (Num s) ex r) =
          Num (if old_qty + s = 0 then 0 else (old_avg * old_qty + p * s) / (old_qty + s))"
  using assms by (simp add: update_position_def Let_def js_arith)

lemma filter_matches_update:
  "filter (matches f) (map (\<lambda>r. if row_id r = i then update_position e p q ex r else r) rs) =
   map (\<lambda>r. if row_id r = i then update_position e p q ex r else r) (filter (matches f) rs)"
  by (induction rs) (auto simp: update_position_frame)

lemma executeOrder_existing:
  assumes "selectedAgent f \<noteq> []" and "selectedSymbol f \<noteq> []" and "orderQuantity f \<noteq> []"
    and "order_insert_error e = None"
    and "filter (matches f) (portfolio_positions db) = [ex]"
  shows "executeOrder e f db =
     (Order_Placed, reset_form f,
      db \<lparr> orders := orders db @ [new_order e f],
           portfolio_positions :=
             map (\<lambda>r. if row_id r = row_id ex
                 then update_position e (Num (Math_random e * 1000 + 500)) (signed_quantity f) ex r
                 else r)
               (portfolio_positions db) \<rparr>)"
  using assms by (simp add: executeOrder_def Let_def single_def)

lemma executeOrder_absent:
  assumes "selectedAgent f \<noteq> []" and "selectedSymbol f \<noteq> []" and "orderQuantity f \<noteq> []"
    and "order_insert_error e = None"
    and "filter (matches f) (portfolio_positions db) = []"
  shows "executeOrder e f db =
     (Order_Placed, reset_form f,
      db \<lparr> orders := orders db @ [new_order e f],
           portfolio_positions := portfolio_positions db @
              [new_position e f (Num (Math_random e * 1000 + 500)) (signed_quantity f)] \<rparr>)"
  using assms by (simp add: executeOrder_def Let_def single_def)

text \<open>The rows of the order's agent and symbol, after an order that found one such row.\<close>

lemma executeOrder_existing_rows:
  assumes "selectedAgent f \<noteq> []" and "selectedSymbol f \<noteq> []" and "orderQuantity f \<noteq> []"
    and "order_insert_error e = None"
    and "filter (matches f) (portfolio_positions db) = [ex]"
  shows "filter (matches f) (portfolio_positions (snd (snd (executeOrder e f db)))) =
         [update_position e (Num (Math_random e * 1000 + 500)) (signed_quantity f) ex ex]"
  using assms by (simp add: executeOrder_existing filter_matches_update)

text \<open>The same, after an order that found none.\<close>

lemma executeOrder_absent_rows:
  assumes "selectedAgent f \<noteq> []" and "selectedSymbol f \<noteq> []" and "orderQuantity f \<noteq> []"
    and "order_insert_error e = None"
    and "filter (matches f) (portfolio_positions db) = []"
  shows "filter (matches f) (portfolio_positions (snd (snd (executeOrder e f db)))) =
         [new_position e f (Num (Math_random e * 1000 + 500)) (signed_quantity f)]"
  using assms by (simp add: executeOrder_absent matches_def new_position_def)

lemma signed_quantity_Num:
  assumes "parseInt (orderQuantity f) = Num q"
  shows "signed_quantity f = Num (if orderSide f = Buy then q else - q)"
  using assms by (simp add: signed_quantity_def js_arith)

text \<open>
  What \<open>executeOrder\<close> does to the column \<open>avg_price\<close>, which no other reader of
  the table names: on a row whose \<open>avg_price\<close> is the number \<open>old_avg\<close>, an order of
  signed quantity \<open>signed_qty\<close> filled at \<open>fill_price\<close> leaves in that column the
  weighted average, or 0 when the new quantity is 0.
\<close>

lemma executeOrder_avg_price_column:
  assumes "selectedAgent f \<noteq> []" and "selectedSymbol f \<noteq> []" and "orderQuantity f \<noteq> []"
    and "order_insert_error e = None"
    and "single (filter (matches f) (portfolio_positions db)) = Some ex"
    and "quantity ex = Num old_qty" and "avg_price ex = Num old_avg"
    and "parseInt (orderQuantity f) = Num q"
    and "signed_qty = (if orderSide f = Buy then q else - q)"
    and "fill_price = Math_random e * 1000 + 500"
    and "new_qty = old_qty + signed_qty"
  shows "\<exists>ex'. single (filter (matches f) (portfolio_positions (snd (snd (executeOrder e f db))))) = Some ex'
           \<and> row_id ex' = row_id ex
           \<and> quantity ex' = Num new_qty
           \<and> avg_price ex' =
               Num (if new_qty = 0 then 0
                    else (old_avg * old_qty + fill_price * signed_qty) / new_qty)"
proof -
  have sq: "signed_quantity f = Num signed_qty"
    using assms(8,9) by (simp add: signed_quantity_Num)
  have rows: "filter (matches f) (portfolio_positions db) = [ex]"
    using assms(5) by (simp add: single_eq_Some)
  let ?ex' = "update_position e (Num fill_price) (Num signed_qty) ex ex"
  have "filter (matches f) (portfolio_positions (snd (snd (executeOrder e f db)))) = [?ex']"
    using executeOrder_existing_rows[OF assms(1-4) rows] sq assms(10) by simp
  moreover have "quantity ?ex' = Num new_qty"
    using assms(6,11) by (simp add: update_position_quantity js_arith)
  moreover have "avg_price ?ex' =
      Num (if new_qty = 0 then 0 else (old_avg * old_qty + fill_price * signed_qty) / new_qty)"
    using update_position_avg_price[OF assms(6,7)] assms(11) by simp
  ultimately show ?thesis
    by (simp add: single_eq_Some update_position_frame)
qed

lemma executeOrder_avg_price_column_example:
  "\<exists>ex'. single (filter (matches example_form)
             (portfolio_positions (snd (snd (executeOrder example_env example_form example_db))))) = Some ex'
         \<and> row_id ex' = 1 \<and> quantity ex' = Num 15 \<and> avg_price ex' = Num 300"
  using executeOrder_avg_price_column[of example_form example_env example_db example_position
          10 100 5 5 700 15]
  by (simp add: example_form_def example_env_def example_db_def example_position_def
        matches_def single_def parseInt_5)

text \<open>
  C1. The claim: an order on an existing position of quantity \<open>old_qty\<close> and average
  price \<open>old_avg\<close>, of signed quantity \<open>signed_qty\<close> and filled at \<open>fill_price\<close>,
  leaves the position with quantity \<open>old_qty + signed_qty\<close> and with average price
  \<open>(old_avg * old_qty + fill_price * signed_qty) / new_qty\<close>. The code at the stored
  example position (quantity 10, average price 100 in \<open>average_price\<close>) and a buy of 5
  filled at 700: the quantity becomes 15, but the average price is read from the property
  \<open>avg_price\<close>, which the row does not have, so that NaN is computed and written to
  \<open>avg_price\<close>, and \<open>average_price\<close> stays 100 where the claim gives 300.
\<close>

theorem executeOrder_average_price_not_updated:
  "portfolio_positions (snd (snd (executeOrder example_env example_form example_stored_db))) =
     [example_stored_position \<lparr> quantity := Num 15, avg_price := NaN, current_price := Num 700,
        updated_at := ''t1'' \<rparr>]
   \<and> map quantity
        (portfolio_positions (snd (snd (executeOrder example_env example_form example_stored_db)))) =
       [Num 15]
   \<and> map avg_price
        (portfolio_positions (snd (snd (executeOrder example_env example_form example_stored_db)))) =
       [NaN]
   \<and> map average_price
        (portfolio_positions (snd (snd (executeOrder example_env example_form example_stored_db)))) =
       [Num 100]
   \<and> Num ((100 * 10 + 700 * 5) / (10 + 5)) = Num 300
   \<and> Num 100 \<noteq> Num 300"
  by (simp add: executeOrder_def Let_def single_def matches_def update_position_def
        signed_quantity_def parseInt_5 example_env_def example_form_def example_stored_db_def
        example_stored_position_def js_add_def js_mul_def js_div_def js_binop_def)

text \<open>
  C8. When the agent, the symbol or the quantity of the form is empty, \<open>executeOrder\<close>
  shows the toast "Missing Information" and leaves the form and the database as they
  were: no order row is inserted and no position is written.
\<close>

theorem executeOrder_missing_information:
  assumes "selectedAgent f = [] \<or> selectedSymbol f = [] \<or> orderQuantity f = []"
  shows "executeOrder e f db = (Missing_Information, f, db)"
  using assms by (simp add: executeOrder_def)

theorem executeOrder_missing_information_witness:
  "executeOrder example_env (example_form \<lparr> orderQuantity := [] \<rparr>) example_db =
     (Missing_Information, example_form \<lparr> orderQuantity := [] \<rparr>, example_db)"
  using executeOrder_missing_information[of "example_form \<lparr> orderQuantity := [] \<rparr>"
          example_env example_db]
  by simp

text \<open>
  The column \<open>avg_price\<close> after two orders of the same side from no position, of
  quantities \<open>q1\<close> and \<open>q2\<close> with \<open>q1 + q2 \<noteq> 0\<close>, filled at \<open>p1\<close> and
  \<open>p2\<close>: it holds \<open>(p1 * q1 + p2 * q2) / (q1 + q2)\<close>.
\<close>

lemma two_fills_avg_price_column:
  assumes "selectedAgent f1 \<noteq> []" and "selectedSymbol f1 \<noteq> []"
    and "orderQuantity f1 \<noteq> []" and "orderQuantity f2 \<noteq> []"
    and "selectedAgent f2 = selectedAgent f1" and "selectedSymbol f2 = selectedSymbol f1"
    and "orderSide f2 = orderSide f1"
    and "order_insert_error e1 = None" and "order_insert_error e2 = None"
    and "filter (matches f1) (portfolio_positions db) = []"
    and "parseInt (orderQuantity f1) = Num q1" and "parseInt (orderQuantity f2) = Num q2"
    and "q1 + q2 \<noteq> 0"
    and "p1 = Math_random e1 * 1000 + 500" and "p2 = Math_random e2 * 1000 + 500"
  shows "\<exists>r. single (filter (matches f1)
               (portfolio_positions
                 (snd (snd (executeOrder e2 f2 (snd (snd (executeOrder e1 f1 db)))))))) = Some r
           \<and> avg_price r = Num ((p1 * q1 + p2 * q2) / (q1 + q2))"
proof -
  let ?s1 = "if orderSide f1 = Buy then q1 else - q1"
  let ?s2 = "if orderSide f1 = Buy then q2 else - q2"
  let ?db1 = "snd (snd (executeOrder e1 f1 db))"
  let ?new = "new_position e1 f1 (Num p1) (Num ?s1)"
  have m: "matches f2 = matches f1"
    using assms(5,6) by (simp add: matches_def fun_eq_iff)
  have sq1: "signed_quantity f1 = Num ?s1"
    using assms(11) by (rule signed_quantity_Num)
  have sq2: "signed_quantity f2 = Num ?s2"
    using signed_quantity_Num[OF assms(12)] assms(7) by simp
  have rows1: "filter (matches f1) (portfolio_positions ?db1) = [?new]"
    using executeOrder_absent_rows[OF assms(1,2,3,8,10)] sq1 assms(14) by simp
  have rows1': "filter (matches f2) (portfolio_positions ?db1) = [?new]"
    using rows1 m by simp
  let ?r = "update_position e2 (Num p2) (Num ?s2) ?new ?new"
  have "filter (matches f2) (portfolio_positions (snd (snd (executeOrder e2 f2 ?db1)))) = [?r]"
    using executeOrder_existing_rows[of f2 e2 ?db1 ?new, OF _ _ assms(4,9) rows1']
      assms(1,2,5,6,15) sq2 by simp
  then have found: "single (filter (matches f1)
       (portfolio_positions (snd (snd (executeOrder e2 f2 ?db1))))) = Some ?r"
    using m by (simp add: single_eq_Some)
  have q: "quantity ?new = Num ?s1" and a: "avg_price ?new = Num p1"
    by (simp_all add: new_position_def)
  have nz: "?s1 + ?s2 \<noteq> 0"
    using assms(13) by auto
  have "avg_price ?r = Num ((p1 * ?s1 + p2 * ?s2) / (?s1 + ?s2))"
    using update_position_avg_price[OF q a, of e2 p2 ?s2 ?new] nz by simp
  also have "(p1 * ?s1 + p2 * ?s2) / (?s1 + ?s2) = (p1 * q1 + p2 * q2) / (q1 + q2)"
  proof (cases "orderSide f1 = Buy")
    case True
    then show ?thesis by simp
  next
    case False
    have g: "(- a) / (- b) = a / b" for a b :: real
      by simp
    have n: "p1 * (- q1) + p2 * (- q2) = - (p1 * q1 + p2 * q2)"
      by (simp add: algebra_simps)
    have d: "- q1 + - q2 = - (q1 + q2)"
      by simp
    have "(p1 * (- q1) + p2 * (- q2)) / (- q1 + - q2) = (p1 * q1 + p2 * q2) / (q1 + q2)"
      unfolding n d by (rule g)
    then show ?thesis using False by simp
  qed
  finally show ?thesis
    using found by blast
qed

lemma two_fills_avg_price_column_example:
  "\<exists>r. single (filter (matches example_form)
          (portfolio_positions
            (snd (snd (executeOrder (example_env \<lparr> Math_random := 1 / 2 \<rparr>) example_form
               (snd (snd (executeOrder example_env example_form empty_db)))))))) = Some r
      \<and> avg_price r = Num 850"
  using two_fills_avg_price_column[of example_form example_form example_env
          "example_env \<lparr> Math_random := 1 / 2 \<rparr>" empty_db 5 5 700 1000]
  by (simp add: example_form_def example_env_def empty_db_def parseInt_5)

text \<open>
  C3. The claim: from no position in a symbol, two orders of the same side, of quantities
  \<open>q1\<close> and \<open>q2\<close>, filled at \<open>p1\<close> and \<open>p2\<close>, leave the position with the
  average price \<open>(p1 * q1 + p2 * q2) / (q1 + q2)\<close>. The code at the empty table and two
  buys of 5, filled at 700 and at 1000: the position has quantity 10 and the weighted
  average 850 in \<open>avg_price\<close>, but neither the insert nor the update gives the column
  \<open>average_price\<close>, which stays null; that is the average price the tracker shows, and
  the price refresh at 120 books an unrealized profit of 1200, as on a cost of 0.
\<close>

theorem two_fills_average_price_null:
  "map quantity
     (portfolio_positions
       (snd (snd (executeOrder (example_env \<lparr> Math_random := 1 / 2 \<rparr>) example_form
          (snd (snd (executeOrder example_env example_form empty_db))))))) = [Num 10]
   \<and> map avg_price
     (portfolio_positions
       (snd (snd (executeOrder (example_env \<lparr> Math_random := 1 / 2 \<rparr>) example_form
          (snd (snd (executeOrder example_env example_form empty_db))))))) = [Num 850]
   \<and> map average_price
     (portfolio_positions
       (snd (snd (executeOrder (example_env \<lparr> Math_random := 1 / 2 \<rparr>) example_form
          (snd (snd (executeOrder example_env example_form empty_db))))))) = [Null]
   \<and> map averagePrice
     (positions (compute_metrics
       (portfolio_positions
         (snd (snd (executeOrder (example_env \<lparr> Math_random := 1 / 2 \<rparr>) example_form
            (snd (snd (executeOrder example_env example_form empty_db))))))))) = [Null]
   \<and> map unrealized_pnl
     (portfolio_positions
       (snd (POST_update_prices example_refresh_env
         (snd (snd (executeOrder (example_env \<lparr> Math_random := 1 / 2 \<rparr>) example_form
            (snd (snd (executeOrder example_env example_form empty_db))))))))) = [Num 1200]
   \<and> Num ((700 * 5 + 1000 * 5) / (5 + 5)) = Num 850
   \<and> Null \<noteq> Num 850"
  by (simp add: executeOrder_def Let_def single_def matches_def update_position_def
        new_position_def signed_quantity_def parseInt_5 example_env_def example_form_def
        empty_db_def js_arith compute_metrics_def process_position_def
        POST_update_prices_def example_refresh_env_def uniqueSymbols_def refresh_symbol_def
        positionsToUpdate_def update_by_id_def price_update_def js_sub_def js_mul_def
        js_binop_def)

text \<open>
  C4. On a position of any quantity \<open>Q\<close>, a buy order of quantity \<open>q\<close> followed by a
  sell order of the same quantity in the same symbol leaves the quantity \<open>Q\<close>.
\<close>

theorem buy_then_sell_restores_quantity:
  assumes "selectedAgent fb \<noteq> []" and "selectedSymbol fb \<noteq> []"
    and "orderQuantity fb \<noteq> []" and "orderQuantity fs \<noteq> []"
    and "selectedAgent fs = selectedAgent fb" and "selectedSymbol fs = selectedSymbol fb"
    and "orderSide fb = Buy" and "orderSide fs = Sell"
    and "order_insert_error e1 = None" and "order_insert_error e2 = None"
    and "single (filter (matches fb) (portfolio_positions db)) = Some ex"
    and "quantity ex = Num Q"
    and "parseInt (orderQuantity fb) = Num q" and "parseInt (orderQuantity fs) = Num q"
  shows "\<exists>r. single (filter (matches fb)
               (portfolio_positions
                 (snd (snd (executeOrder e2 fs (snd (snd (executeOrder e1 fb db)))))))) = Some r
           \<and> row_id r = row_id ex
           \<and> quantity r = Num Q"
proof -
  let ?db1 = "snd (snd (executeOrder e1 fb db))"
  let ?r1 = "update_position e1 (Num (Math_random e1 * 1000 + 500)) (Num q) ex ex"
  let ?r2 = "update_position e2 (Num (Math_random e2 * 1000 + 500)) (Num (- q)) ?r1 ?r1"
  have m: "matches fs = matches fb"
    using assms(5,6) by (simp add: matches_def fun_eq_iff)
  have sqb: "signed_quantity fb = Num q"
    using signed_quantity_Num[OF assms(13)] assms(7) by simp
  have sqs: "signed_quantity fs = Num (- q)"
    using signed_quantity_Num[OF assms(14)] assms(8) by simp
  have rows: "filter (matches fb) (portfolio_positions db) = [ex]"
    using assms(11) by (simp add: single_eq_Some)
  have rows1: "filter (matches fs) (portfolio_positions ?db1) = [?r1]"
    using executeOrder_existing_rows[OF assms(1,2,3,9) rows] sqb m by simp
  have "filter (matches fs) (portfolio_positions (snd (snd (executeOrder e2 fs ?db1)))) = [?r2]"
    using executeOrder_existing_rows[of fs e2 ?db1 ?r1, OF _ _ assms(4,10) rows1]
      assms(1,2,5,6) sqs by simp
  then have "single (filter (matches fb)
       (portfolio_positions (snd (snd (executeOrder e2 fs ?db1))))) = Some ?r2"
    using m by (simp add: single_eq_Some)
  moreover have "quantity ?r2 = Num Q"
    using assms(12) by (simp add: update_position_quantity js_arith)
  moreover have "row_id ?r2 = row_id ex"
    by (simp add: update_position_frame)
  ultimately show ?thesis
    by blast
qed

theorem buy_then_sell_restores_quantity_witness:
  "\<exists>r. single (filter (matches example_form)
          (portfolio_positions
            (snd (snd (executeOrder example_env (example_form \<lparr> orderSide := Sell \<rparr>)
               (snd (snd (executeOrder example_env example_form example_db)))))))) = Some r
      \<and> row_id r = 1 \<and> quantity r = Num 10"
  using buy_then_sell_restores_quantity[of example_form "example_form \<lparr> orderSide := Sell \<rparr>"
          example_env example_env example_db example_position 10 5]
  by (simp add: example_form_def example_env_def example_db_def example_position_def
        matches_def single_def parseInt_5)

text \<open>
  From no position, a buy and a sell of the same quantity leave a position of quantity 0:
  the row stays in the table.
\<close>

lemma buy_then_sell_from_no_position:
  assumes "selectedAgent fb \<noteq> []" and "selectedSymbol fb \<noteq> []"
    and "orderQuantity fb \<noteq> []" and "orderQuantity fs \<noteq> []"
    and "selectedAgent fs = selectedAgent fb" and "selectedSymbol fs = selectedSymbol fb"
    and "orderSide fb = Buy" and "orderSide fs = Sell"
    and "order_insert_error e1 = None" and "order_insert_error e2 = None"
    and "filter (matches fb) (portfolio_positions db) = []"
    and "parseInt (orderQuantity fb) = Num q" and "parseInt (orderQuantity fs) = Num q"
  shows "\<exists>r. single (filter (matches fb)
               (portfolio_positions
                 (snd (snd (executeOrder e2 fs (snd (snd (executeOrder e1 fb db)))))))) = Some r
           \<and> quantity r = Num 0 \<and> avg_price r = Num 0"
proof -
  let ?db1 = "snd (snd (executeOrder e1 fb db))"
  let ?r1 = "new_position e1 fb (Num (Math_random e1 * 1000 + 500)) (Num q)"
  let ?r2 = "update_position e2 (Num (Math_random e2 * 1000 + 500)) (Num (- q)) ?r1 ?r1"
  have m: "matches fs = matches fb"
    using assms(5,6) by (simp add: matches_def fun_eq_iff)
  have sqb: "signed_quantity fb = Num q"
    using signed_quantity_Num[OF assms(12)] assms(7) by simp
  have sqs: "signed_quantity fs = Num (- q)"
    using signed_quantity_Num[OF assms(13)] assms(8) by simp
  have rows1: "filter (matches fs) (portfolio_positions ?db1) = [?r1]"
    using executeOrder_absent_rows[OF assms(1,2,3,9,11)] sqb m by simp
  have "filter (matches fs) (portfolio_positions (snd (snd (executeOrder e2 fs ?db1)))) = [?r2]"
    using executeOrder_existing_rows[of fs e2 ?db1 ?r1, OF _ _ assms(4,10) rows1]
      assms(1,2,5,6) sqs by simp
  then have "single (filter (matches fb)
       (portfolio_positions (snd (snd (executeOrder e2 fs ?db1))))) = Some ?r2"
    using m by (simp add: single_eq_Some)
  moreover have "quantity ?r2 = Num 0" and "avg_price ?r2 = Num 0"
    by (simp_all add: update_position_def Let_def new_position_def js_arith)
  ultimately show ?thesis
    by blast
qed

text \<open>
  The average price that \<open>executeOrder\<close> reads is the column \<open>avg_price\<close>. On a row
  that has no such column (the tables script and the other readers name the column
  \<open>average_price\<close>) the new average price is NaN whenever the new quantity is not 0, and
  the column \<open>average_price\<close> is not written.
\<close>

lemma update_position_missing_avg_price:
  assumes "avg_price ex = Undefined" and "js_add (quantity ex) q \<noteq> Num 0"
  shows "avg_price (update_position e p q ex r) = NaN"
    and "average_price (update_position e p q ex r) = average_price r"
  using assms
  by (simp_all add: update_position_def Let_def js_add_def js_mul_def js_div_def js_binop_def)

text \<open>
  C7 as stated fails: the order row that \<open>executeRebalance\<close> inserts has the status
  pending, not filled.
\<close>

theorem executeRebalance_order_not_filled:
  "orders (snd (executeRebalance example_env example_form example_recommendation empty_db)) =
     [rebalance_order example_env example_form example_recommendation]
   \<and> ord_status (rebalance_order example_env example_form example_recommendation) = ''pending''
   \<and> ord_status (rebalance_order example_env example_form example_recommendation) \<noteq> ''filled''"
  by (simp add: executeRebalance_def rebalance_order_def example_env_def empty_db_def)

text \<open>
  C7, amended. \<open>executeOrder\<close> inserts no order row or one row of status filled;
  \<open>executeRebalance\<close> inserts no order row or one row of status pending.
\<close>

theorem order_status_on_creation:
  "(orders (snd (snd (executeOrder e f db))) = orders db
      \<or> (\<exists>row. orders (snd (snd (executeOrder e f db))) = orders db @ [row]
                \<and> ord_status row = ''filled''))
   \<and> (orders (snd (executeRebalance e' f' recommendation db')) = orders db'
      \<or> (\<exists>row. orders (snd (executeRebalance e' f' recommendation db')) = orders db' @ [row]
                \<and> ord_status row = ''pending''))"
proof
  show "orders (snd (snd (executeOrder e f db))) = orders db
      \<or> (\<exists>row. orders (snd (snd (executeOrder e f db))) = orders db @ [row]
                \<and> ord_status row = ''filled'')"
    by (simp add: executeOrder_def Let_def new_order_def split: option.split)
  show "orders (snd (executeRebalance e' f' recommendation db')) = orders db'
      \<or> (\<exists>row. orders (snd (executeRebalance e' f' recommendation db')) = orders db' @ [row]
                \<and> ord_status row = ''pending'')"
    by (simp add: executeRebalance_def rebalance_order_def split: option.split)
qed

section \<open>Properties of the price refresh\<close>

lemma js_mul_commute: "js_mul a b = js_mul b a"
  by (simp add: js_mul_def js_binop_def mult.commute split: option.split)

lemma outside_refresh_price_update: "outside_refresh (price_update t m p r) = outside_refresh r"
  by (simp add: outside_refresh_def price_update_def Let_def)

lemma outside_refresh_update_by_id:
  "map outside_refresh (update_by_id t m rows p) = map outside_refresh rows"
  by (simp add: update_by_id_def outside_refresh_price_update)

lemma outside_refresh_updates:
  "map outside_refresh (foldl (update_by_id t m) rows ps) = map outside_refresh rows"
  by (induction ps arbitrary: rows) (simp_all add: outside_refresh_update_by_id)

lemma outside_refresh_symbol:
  "map outside_refresh (refresh_symbol t rows m) = map outside_refresh rows"
  by (simp add: refresh_symbol_def outside_refresh_updates)

lemma outside_refresh_symbols:
  "map outside_refresh (foldl (refresh_symbol t) rows ms) = map outside_refresh rows"
  by (induction ms arbitrary: rows) (simp_all add: outside_refresh_symbol)

lemma outside_refresh_fields:
  "row_id (outside_refresh r) = row_id r"
  "agent_id (outside_refresh r) = agent_id r"
  "symbol (outside_refresh r) = symbol r"
  "quantity (outside_refresh r) = quantity r"
  "average_price (outside_refresh r) = average_price r"
  by (simp_all add: outside_refresh_def)

text \<open>
  C10. The price refresh leaves every column of every position row as it was, except
  \<open>current_price\<close>, \<open>market_value\<close>, \<open>unrealized_pnl\<close> and \<open>updated_at\<close>: the key,
  the agent, the symbol, the quantity and the average price of each row are unchanged, no row
  is added or removed, and no order is written.
\<close>

theorem price_refresh_frame:
  "map outside_refresh (portfolio_positions (snd (POST_update_prices e db))) =
     map outside_refresh (portfolio_positions db)
   \<and> map (\<lambda>r. (row_id r, agent_id r, symbol r, quantity r, average_price r))
        (portfolio_positions (snd (POST_update_prices e db))) =
     map (\<lambda>r. (row_id r, agent_id r, symbol r, quantity r, average_price r))
        (portfolio_positions db)
   \<and> orders (snd (POST_update_prices e db)) = orders db"
proof -
  have frame: "map outside_refresh (portfolio_positions (snd (POST_update_prices e db))) =
     map outside_refresh (portfolio_positions db)"
    by (simp add: POST_update_prices_def Let_def outside_refresh_symbols)
  have "map ((\<lambda>r. (row_id r, agent_id r, symbol r, quantity r, average_price r)) \<circ> outside_refresh)
          (portfolio_positions (snd (POST_update_prices e db))) =
        map ((\<lambda>r. (row_id r, agent_id r, symbol r, quantity r, average_price r)) \<circ> outside_refresh)
          (portfolio_positions db)"
    using arg_cong[OF frame, of "map (\<lambda>r. (row_id r, agent_id r, symbol r, quantity r, average_price r))"]
    by (simp only: map_map)
  then have cols: "map (\<lambda>r. (row_id r, agent_id r, symbol r, quantity r, average_price r))
        (portfolio_positions (snd (POST_update_prices e db))) =
     map (\<lambda>r. (row_id r, agent_id r, symbol r, quantity r, average_price r))
        (portfolio_positions db)"
    by (simp add: comp_def outside_refresh_fields)
  have "orders (snd (POST_update_prices e db)) = orders db"
    by (simp add: POST_update_prices_def Let_def)
  with frame cols show ?thesis
    by blast
qed

text \<open>
  C2 as stated fails: an order on a position whose cached fields are derivable leaves the
  stored market value of 1000 beside a quantity of 15 and a current price of 700.
\<close>

theorem executeOrder_leaves_cache_stale:
  "list_all cached_fields_derivable (portfolio_positions example_db)
   \<and> \<not> list_all cached_fields_derivable
         (portfolio_positions (snd (snd (executeOrder example_env example_form example_db))))"
  by (simp add: cached_fields_derivable_def example_db_def example_position_def example_form_def
        example_env_def executeOrder_def Let_def single_def matches_def update_position_def
        signed_quantity_def parseInt_5 js_arith)

lemma agrees_frame:
  assumes "map outside_refresh rows' = map outside_refresh rows"
  shows "agrees p rows' = agrees p rows"
proof -
  have "agrees p xs =
      list_all (\<lambda>x. row_id x = row_id p \<longrightarrow>
                  quantity x = quantity p \<and> average_price x = average_price p)
        (map outside_refresh xs)" for xs
    by (simp add: agrees_def list_all_iff outside_refresh_fields)
  then show ?thesis
    using assms by simp
qed

lemma price_update_derivable:
  assumes "quantity r = quantity p" and "average_price r = average_price p"
  shows "cached_fields_derivable (price_update t m p r)"
  using assms
  by (simp add: cached_fields_derivable_def price_update_def Let_def js_mul_commute)

lemma update_by_id_rows:
  assumes "agrees p rows" and "r' \<in> set (update_by_id t m rows p)"
  shows "(r' \<in> set rows \<and> row_id r' \<noteq> row_id p) \<or> cached_fields_derivable r'"
proof -
  from assms(2) obtain r where r: "r \<in> set rows"
    and r': "r' = (if row_id r = row_id p then price_update t m p r else r)"
    by (auto simp: update_by_id_def)
  show ?thesis
  proof (cases "row_id r = row_id p")
    case True
    then have "quantity r = quantity p" and "average_price r = average_price p"
      using assms(1) r by (auto simp: agrees_def list_all_iff)
    then show ?thesis
      using r' True by (simp add: price_update_derivable)
  next
    case False
    then show ?thesis
      using r r' by simp
  qed
qed

lemma updates_rows:
  assumes "list_all (\<lambda>p. agrees p rows) ps" and "r' \<in> set (foldl (update_by_id t m) rows ps)"
  shows "(r' \<in> set rows \<and> row_id r' \<notin> row_id ` set ps) \<or> cached_fields_derivable r'"
  using assms
proof (induction ps arbitrary: rows)
  case Nil
  then show ?case by simp
next
  case (Cons p ps)
  let ?rows1 = "update_by_id t m rows p"
  have "list_all (\<lambda>q. agrees q ?rows1) ps"
    using Cons.prems(1) by (simp add: agrees_frame[OF outside_refresh_update_by_id])
  moreover have "r' \<in> set (foldl (update_by_id t m) ?rows1 ps)"
    using Cons.prems(2) by simp
  ultimately have "(r' \<in> set ?rows1 \<and> row_id r' \<notin> row_id ` set ps) \<or> cached_fields_derivable r'"
    by (rule Cons.IH)
  moreover have "agrees p rows"
    using Cons.prems(1) by simp
  ultimately show ?case
    using update_by_id_rows[of p rows r' t m] by auto
qed

lemma distinct_agrees:
  assumes "distinct (map row_id rows)" and "p \<in> set rows"
  shows "agrees p rows"
  using assms by (auto simp: agrees_def list_all_iff distinct_map inj_on_def)

lemma refresh_symbol_rows:
  assumes "distinct (map row_id rows)" and "r' \<in> set (refresh_symbol t rows m)"
  shows "cached_fields_derivable r'
         \<or> (r' \<in> set rows \<and> \<not> (symbol r' = m_symbol m \<and> neq0 (quantity r')))"
proof -
  have "list_all (\<lambda>p. agrees p rows) (positionsToUpdate m rows)"
    using distinct_agrees[OF assms(1)] by (simp add: list_all_iff positionsToUpdate_def)
  then have "(r' \<in> set rows \<and> row_id r' \<notin> row_id ` set (positionsToUpdate m rows))
             \<or> cached_fields_derivable r'"
    using assms(2) unfolding refresh_symbol_def by (rule updates_rows)
  then show ?thesis
    by (auto simp: positionsToUpdate_def)
qed

lemma row_ids_refresh_symbol: "map row_id (refresh_symbol t rows m) = map row_id rows"
proof -
  have "map (row_id \<circ> outside_refresh) (refresh_symbol t rows m) =
        map (row_id \<circ> outside_refresh) rows"
    using arg_cong[OF outside_refresh_symbol, of "map row_id" t rows m] by (simp only: map_map)
  then show ?thesis
    by (simp add: comp_def outside_refresh_fields)
qed

lemma refresh_symbols_rows:
  assumes "distinct (map row_id rows)" and "r' \<in> set (foldl (refresh_symbol t) rows ms)"
  shows "cached_fields_derivable r'
         \<or> (r' \<in> set rows \<and> \<not> (symbol r' \<in> m_symbol ` set ms \<and> neq0 (quantity r')))"
  using assms
proof (induction ms arbitrary: rows)
  case Nil
  then show ?case by simp
next
  case (Cons m ms)
  let ?rows1 = "refresh_symbol t rows m"
  have "distinct (map row_id ?rows1)"
    using Cons.prems(1) by (simp add: row_ids_refresh_symbol)
  moreover have "r' \<in> set (foldl (refresh_symbol t) ?rows1 ms)"
    using Cons.prems(2) by simp
  ultimately have "cached_fields_derivable r'
         \<or> (r' \<in> set ?rows1 \<and> \<not> (symbol r' \<in> m_symbol ` set ms \<and> neq0 (quantity r')))"
    by (rule Cons.IH)
  then show ?case
    using refresh_symbol_rows[OF Cons.prems(1), of r' t m] by auto
qed

lemma executeOrder_cached_fields:
  "map (\<lambda>r. (market_value r, unrealized_pnl r))
       (portfolio_positions (snd (snd (executeOrder e f db)))) =
     map (\<lambda>r. (market_value r, unrealized_pnl r)) (portfolio_positions db)
   \<or> map (\<lambda>r. (market_value r, unrealized_pnl r))
       (portfolio_positions (snd (snd (executeOrder e f db)))) =
     map (\<lambda>r. (market_value r, unrealized_pnl r)) (portfolio_positions db) @ [(Null, Null)]"
  by (simp add: executeOrder_def Let_def comp_def update_position_frame new_position_def
        split: option.split)

text \<open>
  C2, amended. After a price refresh that reports success, on a table whose row keys are
  distinct, every position of non-zero quantity whose symbol the market data prices has a
  stored market value equal to quantity times current price and a stored unrealized profit
  equal to quantity times the difference of current price and average price.
  \<open>executeOrder\<close> writes neither of the two fields: they stay as they were in every
  row, and are null in the row of a new position.
\<close>

theorem price_refresh_restores_cached_fields:
  assumes "distinct (map row_id (portfolio_positions db))"
    and "POST_update_prices e db = (Portfolio_prices_updated n, db')"
    and "prices = data (market_response e
           (uniqueSymbols (map symbol (filter (\<lambda>r. neq0 (quantity r)) (portfolio_positions db)))))"
    and "r \<in> set (portfolio_positions db')"
    and "neq0 (quantity r)" and "symbol r \<in> m_symbol ` set prices"
  shows "cached_fields_derivable r
    \<and> (map (\<lambda>r. (market_value r, unrealized_pnl r))
           (portfolio_positions (snd (snd (executeOrder oe f odb)))) =
         map (\<lambda>r. (market_value r, unrealized_pnl r)) (portfolio_positions odb)
       \<or> map (\<lambda>r. (market_value r, unrealized_pnl r))
           (portfolio_positions (snd (snd (executeOrder oe f odb)))) =
         map (\<lambda>r. (market_value r, unrealized_pnl r)) (portfolio_positions odb) @ [(Null, Null)])"
proof
  have "portfolio_positions db' =
      foldl (refresh_symbol (refresh_now e)) (portfolio_positions db) prices"
    using assms(2,3) by (auto simp: POST_update_prices_def Let_def split: if_splits)
  then have "r \<in> set (foldl (refresh_symbol (refresh_now e)) (portfolio_positions db) prices)"
    using assms(4) by simp
  then show "cached_fields_derivable r"
    using refresh_symbols_rows[OF assms(1), of r "refresh_now e" prices] assms(5,6) by blast
next
  show "map (\<lambda>r. (market_value r, unrealized_pnl r))
           (portfolio_positions (snd (snd (executeOrder oe f odb)))) =
         map (\<lambda>r. (market_value r, unrealized_pnl r)) (portfolio_positions odb)
       \<or> map (\<lambda>r. (market_value r, unrealized_pnl r))
           (portfolio_positions (snd (snd (executeOrder oe f odb)))) =
         map (\<lambda>r. (market_value r, unrealized_pnl r)) (portfolio_positions odb) @ [(Null, Null)]"
    by (rule executeOrder_cached_fields)
qed

lemma example_refresh:
  "POST_update_prices example_refresh_env example_db =
     (Portfolio_prices_updated 1,
      \<lparr> orders = [],
        portfolio_positions =
          [example_position \<lparr> current_price := Num 120, market_value := Num 1200,
             unrealized_pnl := Num 200, updated_at := ''t2'' \<rparr>] \<rparr>)"
  by (simp add: POST_update_prices_def Let_def example_refresh_env_def example_db_def
        example_position_def uniqueSymbols_def refresh_symbol_def positionsToUpdate_def
        update_by_id_def price_update_def js_arith)

text \<open>The refresh of the example position at the price 120, and an order on it.\<close>

theorem price_refresh_restores_cached_fields_witness:
  "POST_update_prices example_refresh_env example_db =
     (Portfolio_prices_updated 1,
      \<lparr> orders = [],
        portfolio_positions =
          [example_position \<lparr> current_price := Num 120, market_value := Num 1200,
             unrealized_pnl := Num 200, updated_at := ''t2'' \<rparr>] \<rparr>)
   \<and> cached_fields_derivable
        (example_position \<lparr> current_price := Num 120, market_value := Num 1200,
             unrealized_pnl := Num 200, updated_at := ''t2'' \<rparr>)
   \<and> map (\<lambda>r. (market_value r, unrealized_pnl r))
        (portfolio_positions (snd (snd (executeOrder example_env example_form example_db)))) =
      [(Num 1000, Num 0)]"
proof -
  let ?r = "example_position \<lparr> current_price := Num 120, market_value := Num 1200,
             unrealized_pnl := Num 200, updated_at := ''t2'' \<rparr>"
  have "distinct (map row_id (portfolio_positions example_db))"
    by (simp add: example_db_def)
  moreover have "neq0 (quantity ?r)"
    by (simp add: example_position_def)
  moreover have "symbol ?r \<in> m_symbol ` set (data (market_response example_refresh_env
           (uniqueSymbols (map symbol (filter (\<lambda>r. neq0 (quantity r))
              (portfolio_positions example_db))))))"
    by (simp add: example_refresh_env_def example_db_def example_position_def uniqueSymbols_def)
  ultimately have "cached_fields_derivable ?r"
    using price_refresh_restores_cached_fields[OF _ example_refresh refl, of ?r
            example_env example_form example_db]
    by simp
  moreover have "map (\<lambda>r. (market_value r, unrealized_pnl r))
        (portfolio_positions (snd (snd (executeOrder example_env example_form example_db)))) =
      [(Num 1000, Num 0)]"
    by (simp add: example_db_def example_position_def example_form_def example_env_def
          executeOrder_def Let_def single_def matches_def update_position_def)
  ultimately show ?thesis
    using example_refresh by simp
qed

section \<open>Properties of the portfolio tracker\<close>

text \<open>
  C5 as stated fails: for a position of quantity 10, average price 100 and current price
  120 with no stored market value, the tracker reports 1000, not 1200. And after an order
  on the example position, which leaves the quantity 15, the current price 700 and the
  stored market value 1000, the tracker reports 1000, not 10500.
\<close>

theorem tracker_market_value_not_from_current_price:
  "map marketValue (positions (compute_metrics [example_uncached_position])) = [Num 1000]
   \<and> js_mul (quantity example_uncached_position) (current_price example_uncached_position) = Num 1200
   \<and> portfolio_positions (snd (snd (executeOrder example_env example_form example_db))) =
       [example_position \<lparr> quantity := Num 15, avg_price := Num 300, current_price := Num 700,
          updated_at := ''t1'' \<rparr>]
   \<and> map marketValue
        (positions (compute_metrics
           (portfolio_positions (snd (snd (executeOrder example_env example_form example_db)))))) =
       [Num 1000]
   \<and> js_mul (Num 15) (Num 700) = Num 10500"
  by (simp add: compute_metrics_def Let_def process_position_def example_uncached_position_def
        js_or_def js_arith example_db_def example_position_def example_form_def
        example_env_def executeOrder_def single_def matches_def update_position_def
        signed_quantity_def parseInt_5)

text \<open>
  C5, amended. The market value that the tracker reports for a position is the stored
  \<open>market_value\<close> when that is a non-zero number, and quantity times average price
  otherwise, whatever the current price is. The market value that the price refresh
  stores is quantity times the current price that it stores.
\<close>

theorem valuation_market_value:
  "map marketValue (positions (compute_metrics rows)) =
     map (\<lambda>r. if truthy (market_value r) then market_value r
               else js_mul (quantity r) (average_price r)) rows
   \<and> market_value (price_update t m p p) =
       js_mul (quantity (price_update t m p p)) (current_price (price_update t m p p))"
  by (simp add: compute_metrics_def Let_def process_position_def js_or_def price_update_def)

lemma js_or_stored_value: "js_or (market_value r) (Num 0) = Num (stored_value r)"
  by (cases "market_value r") (simp_all add: js_or_def stored_value_def)

lemma reduce_stored_values:
  "foldl (\<lambda>total pos. js_add total (js_or (market_value pos) (Num 0))) (Num a) rows =
     Num (a + sum_list (map stored_value rows))"
  by (induction rows arbitrary: a) (simp_all add: js_or_stored_value js_arith add.assoc)

lemma totalValue_stored_values:
  "totalValue (compute_metrics rows) = Num (sum_list (map stored_value rows))"
  using reduce_stored_values[of 0 rows]
  by (simp add: compute_metrics_def Let_def reduce_sum_def)

lemma allocation_stored_value:
  "allocation (process_position (Num T) r) = Num (if 0 < T then stored_value r / T * 100 else 0)"
  by (simp add: process_position_def js_or_stored_value js_gt0_def js_arith)

lemma sum_percentages:
  "sum_list (map (\<lambda>r. stored_value r / T * 100) rows) = sum_list (map stored_value rows) / T * 100"
  by (induction rows) (simp_all add: add_divide_distrib distrib_right)

text \<open>
  C6 as stated fails: a single short position of market value -1000 makes the sum of the
  market values -1000, which is not 0, and its allocation is 0, not 100 percent. Such a
  position arises from the empty table by a sell order of five shares and a price refresh
  at 120: the sum is then -600 and the allocation 0.
\<close>

theorem allocation_zero_on_negative_total:
  "totalValue (compute_metrics [example_short_position]) = Num (- 1000)
   \<and> map allocation (positions (compute_metrics [example_short_position])) = [Num 0]
   \<and> js_mul (js_div (market_value example_short_position) (Num (- 1000))) (Num 100) = Num 100
   \<and> totalValue (compute_metrics (portfolio_positions (snd (POST_update_prices example_refresh_env
         (snd (snd (executeOrder example_env (example_form \<lparr> orderSide := Sell \<rparr>) empty_db)))))))
       = Num (- 600)
   \<and> map allocation (positions (compute_metrics (portfolio_positions
         (snd (POST_update_prices example_refresh_env
           (snd (snd (executeOrder example_env (example_form \<lparr> orderSide := Sell \<rparr>) empty_db))))))))
       = [Num 0]"
  by (simp add: compute_metrics_def Let_def process_position_def reduce_sum_def
        example_short_position_def js_or_def js_gt0_def js_arith
        POST_update_prices_def example_refresh_env_def uniqueSymbols_def refresh_symbol_def
        positionsToUpdate_def update_by_id_def price_update_def
        executeOrder_def example_env_def example_form_def empty_db_def single_def
        new_position_def signed_quantity_def parseInt_5 js_sub_def js_mul_def js_binop_def)

text \<open>
  C6, amended. With \<open>T\<close> the sum of the stored market values (a row without a stored
  value counting as 0), the total value is \<open>T\<close>, the allocation of each position is its
  stored market value over \<open>T\<close> times 100 when \<open>T\<close> is positive and 0 when \<open>T\<close> is zero
  or negative, and when \<open>T\<close> is positive the allocations add up to 100.
\<close>

theorem allocation_of_total:
  assumes "T = sum_list (map stored_value rows)"
  shows "totalValue (compute_metrics rows) = Num T
    \<and> map allocation (positions (compute_metrics rows)) =
        map (\<lambda>r. Num (if 0 < T then stored_value r / T * 100 else 0)) rows
    \<and> (0 < T \<longrightarrow>
         (\<exists>percentages. map allocation (positions (compute_metrics rows)) = map Num percentages
            \<and> sum_list percentages = 100))"
proof -
  have tv: "totalValue (compute_metrics rows) = Num T"
    using assms by (simp add: totalValue_stored_values)
  have "positions (compute_metrics rows) = map (process_position (Num T)) rows"
    using tv by (simp add: compute_metrics_def Let_def split: if_splits)
  then have al: "map allocation (positions (compute_metrics rows)) =
        map (\<lambda>r. Num (if 0 < T then stored_value r / T * 100 else 0)) rows"
    by (simp add: allocation_stored_value)
  have "\<exists>percentages. map allocation (positions (compute_metrics rows)) = map Num percentages
            \<and> sum_list percentages = 100" if "0 < T"
  proof -
    have "map allocation (positions (compute_metrics rows)) =
        map Num (map (\<lambda>r. stored_value r / T * 100) rows)"
      using al that by simp
    moreover have "sum_list (map (\<lambda>r. stored_value r / T * 100) rows) = 100"
      unfolding sum_percentages using that assms by simp
    ultimately show ?thesis
      by (intro exI[of _ "map (\<lambda>r. stored_value r / T * 100) rows"] conjI)
  qed
  with tv al show ?thesis
    by blast
qed

theorem allocation_of_total_witness:
  "totalValue (compute_metrics [example_position, example_position \<lparr> market_value := Num 3000 \<rparr>]) =
     Num 4000
   \<and> map allocation
       (positions (compute_metrics [example_position, example_position \<lparr> market_value := Num 3000 \<rparr>])) =
     [Num 25, Num 75]
   \<and> (\<exists>percentages.
         map allocation
           (positions (compute_metrics [example_position, example_position \<lparr> market_value := Num 3000 \<rparr>])) =
         map Num percentages
         \<and> sum_list percentages = 100)"
proof -
  let ?rows = "[example_position, example_position \<lparr> market_value := Num 3000 \<rparr>]"
  have T: "(4000::real) = sum_list (map stored_value ?rows)"
    by (simp add: stored_value_def example_position_def)
  note r = allocation_of_total[OF T]
  have pos: "0 < (4000::real)"
    by simp
  have "totalValue (compute_metrics ?rows) = Num 4000"
    using r by simp
  moreover have "map allocation (positions (compute_metrics ?rows)) = [Num 25, Num 75]"
    using r by (simp add: stored_value_def example_position_def)
  moreover have "\<exists>percentages.
         map allocation (positions (compute_metrics ?rows)) = map Num percentages
         \<and> sum_list percentages = 100"
    using r pos by blast
  ultimately show ?thesis
    by blast
qed

section \<open>Properties of strategy generation\<close>

lemma validate_parse_fails:
  assumes "JSON_parse lib (cleanedText text) = None"
  shows "validate lib text = None"
  using assms by (simp add: validate_def)

lemma validate_field_missing:
  assumes "JSON_parse lib (cleanedText text) = Some strategy"
    and "field \<in> set [''name'', ''description'', ''entryRules'', ''exitRules'']"
    and "get_prop strategy field = None"
  shows "validate lib text = None"
proof -
  have "\<not> json_truthy (get_prop strategy field)"
    using assms(3) by simp
  then have "\<not> json_truthy (get_prop strategy ''name'')
      \<or> \<not> json_truthy (get_prop strategy ''description'')
      \<or> \<not> json_truthy (get_prop strategy ''entryRules'')
      \<or> \<not> json_truthy (get_prop strategy ''exitRules'')"
    using assms(2) by auto
  then show ?thesis
    using assms(1) by (auto simp: validate_def)
qed

lemma cleanedText_example: "cleanedText example_answer = ''{}''"
  by (simp add: cleanedText_def example_answer_def nl_def trim_def strip_opening_fence_def
        strip_closing_fence_def isWhiteSpace_def)

text \<open>
  C9. When the cleaned answer of the model does not parse as JSON, or parses to a value
  without one of the fields name, description, entryRules and exitRules, the route answers
  with success, and the generated strategy of the answer is the template, which depends on
  the risk tolerance and the strategy type of the request only.
\<close>

theorem malformed_answer_falls_back:
  assumes "generateText e = Some text"
    and "JSON_parse lib (cleanedText text) = None
         \<or> (\<exists>strategy field.
               JSON_parse lib (cleanedText text) = Some strategy
               \<and> field \<in> set [''name'', ''description'', ''entryRules'', ''exitRules'']
               \<and> get_prop strategy field = None)"
  shows "\<exists>saved warning.
           POST_generate_strategy lib e req =
             Success saved
               (fallback_strategy lib (req_riskTolerance req) (req_strategyType req)) warning"
proof -
  have "validate lib text = None"
    using assms(2) validate_parse_fails validate_field_missing by blast
  then have "strategy_of lib req text =
      fallback_strategy lib (req_riskTolerance req) (req_strategyType req)"
    by (simp add: strategy_of_def)
  then show ?thesis
    using assms(1) by (simp add: POST_generate_strategy_def Let_def)
qed

theorem malformed_answer_falls_back_witness:
  "JSON_parse example_library (cleanedText example_answer) = Some (JObj [])
   \<and> (\<exists>saved warning.
         POST_generate_strategy example_library example_strategy_env example_request =
           Success saved (fallback_strategy example_library 50 ''Momentum'') warning)"
proof -
  have parsed: "JSON_parse example_library (cleanedText example_answer) = Some (JObj [])"
    by (simp add: cleanedText_example example_library_def)
  have "generateText example_strategy_env = Some example_answer"
    by (simp add: example_strategy_env_def)
  moreover have "JSON_parse example_library (cleanedText example_answer) = None
         \<or> (\<exists>strategy field.
               JSON_parse example_library (cleanedText example_answer) = Some strategy
               \<and> field \<in> set [''name'', ''description'', ''entryRules'', ''exitRules'']
               \<and> get_prop strategy field = None)"
    using parsed by auto
  ultimately have "\<exists>saved warning.
         POST_generate_strategy example_library example_strategy_env example_request =
           Success saved
             (fallback_strategy example_library (req_riskTolerance example_request)
                (req_strategyType example_request)) warning"
    by (rule malformed_answer_falls_back)
  then show ?thesis
    using parsed by (simp add: example_request_def)
qed

end
